theory Spec2Isabelle
  imports Complex_Main
begin

section \<open>Data crossing the boundary (src/frontend/src/lib/api.ts)\<close>

text \<open>
  The storefront is a React page (pages/Index.tsx) over a REST client (lib/api.ts).
  JavaScript numbers are modelled exactly: a price is a \<open>real\<close>, a quantity an \<open>int\<close>
  (the rounding of IEEE doubles is outside the model). A field that may be missing
  (\<open>undefined\<close> or \<open>null\<close>) is an \<open>option\<close>.
\<close>

text \<open>\<open>CustomerProduct\<close> (api.ts, lines 23-34).\<close>

record customer_product =
  cp_id :: string
  cp_name :: string
  cp_price :: real
  cp_description :: string
  cp_color :: string
  cp_size :: string
  cp_product_code :: string
  cp_category :: string
  cp_image_url :: string
  cp_pricebook_entry_id :: string

text \<open>\<open>CartItemAdd\<close> (api.ts, lines 36-45): the body of an add request.\<close>

record cart_item_add =
  add_product_id :: string
  add_quantity :: int
  add_pricebook_entry_id :: string
  add_price :: real
  add_name :: string
  add_color :: "string option"
  add_size :: "string option"
  add_image_url :: "string option"

text \<open>
  One element of the \<open>cart\<close> array of a cart response (typed \<open>any\<close> in the source; the
  fields are those that Index.tsx reads, lines 101-115).
\<close>

record cart_line =
  li_product_id :: string
  li_name :: string
  li_price :: real
  li_pricebook_entry_id :: string
  li_image_url :: "string option"
  li_color :: "string option"
  li_size :: "string option"
  li_quantity :: int

text \<open>The result type of \<open>cartApi.getCart\<close>; Index.tsx reads \<open>cartData?.cart?\<close>.\<close>

record cart_response =
  resp_cart :: "cart_line list option"
  resp_total :: real
  resp_item_count :: int

text \<open>The result type of \<open>cartApi.getOrCreateSession\<close>.\<close>

record session_response =
  session_id :: string
  sess_cart :: "cart_line list"
  sess_total :: real

text \<open>\<open>OrderRequest\<close> (api.ts, lines 47-60).\<close>

record order_item =
  oi_product_id :: string
  oi_quantity :: int
  oi_unit_price :: real
  oi_pricebook_entry_id :: string

datatype customer = Customer string string "string option"

record order_request =
  customer :: customer
  items :: "order_item list"
  checkout_source :: "string option"

text \<open>
  What \<open>await fetch(...)\<close> followed by \<open>response.json()\<close> can give: the fetch itself
  rejects; the response is not ok, and its body either fails to parse or parses to an
  object whose \<open>detail\<close> field may be missing; the response is ok, and its body either
  fails to parse or parses.
\<close>

datatype 'a fetch_result =
    Rejected string
  | NotOk "string + string option"
  | Ok "string + 'a"

text \<open>The requests the client sends, by endpoint.\<close>

datatype request =
    GetSession
  | GetCart string
  | PostAdd string cart_item_add
  | PutItem string string int
  | DeleteItem string string
  | DeleteCart string
  | PostOrder order_request "string option"

text \<open>\<open>error.detail || 'Failed to ...'\<close>: a missing or empty detail is falsy.\<close>

definition detail_or :: "string option \<Rightarrow> string \<Rightarrow> string" where
  "detail_or d dflt = (case d of None \<Rightarrow> dflt | Some s \<Rightarrow> if s = [] then dflt else s)"

text \<open>
  The body shared by \<open>addToCart\<close>, \<open>updateCartItem\<close>, \<open>removeFromCart\<close>, \<open>clearCart\<close> and
  \<open>createOrder\<close>: \<open>Inl m\<close> is an \<open>Error\<close> with message \<open>m\<close> thrown to the caller.
\<close>

definition throw_detail :: "string \<Rightarrow> 'a fetch_result \<Rightarrow> string + 'a" where
  "throw_detail dflt r =
     (case r of
        Rejected m \<Rightarrow> Inl m
      | NotOk (Inl m) \<Rightarrow> Inl m
      | NotOk (Inr d) \<Rightarrow> Inl (detail_or d dflt)
      | Ok j \<Rightarrow> j)"

definition getOrCreateSession :: "session_response fetch_result \<Rightarrow> string + session_response" where
  "getOrCreateSession r =
     (case r of Rejected m \<Rightarrow> Inl m | NotOk _ \<Rightarrow> Inl ''Failed to get session'' | Ok j \<Rightarrow> j)"

definition getCart :: "cart_response fetch_result \<Rightarrow> string + cart_response" where
  "getCart r =
     (case r of Rejected m \<Rightarrow> Inl m | NotOk _ \<Rightarrow> Inl ''Failed to fetch cart'' | Ok j \<Rightarrow> j)"

definition addToCart :: "string option fetch_result \<Rightarrow> string + string option" where
  "addToCart = throw_detail ''Failed to add to cart''"

definition updateCartItem :: "unit fetch_result \<Rightarrow> string + unit" where
  "updateCartItem = throw_detail ''Failed to update cart''"

definition removeFromCart :: "unit fetch_result \<Rightarrow> string + unit" where
  "removeFromCart = throw_detail ''Failed to remove from cart''"

definition clearCart :: "unit fetch_result \<Rightarrow> string + unit" where
  "clearCart = throw_detail ''Failed to clear cart''"

definition createOrder :: "unit fetch_result \<Rightarrow> string + unit" where
  "createOrder = throw_detail ''Failed to create order''"

text \<open>The request each call sends (method and path of the \<open>fetch\<close>).\<close>

definition createOrder_request :: "order_request \<Rightarrow> string \<Rightarrow> request" where
  "createOrder_request ord sid = PostOrder ord (if sid = [] then None else Some sid)"

section \<open>The cart view (pages/Index.tsx, components/Cart.tsx)\<close>

record cart_item =
  product :: customer_product
  quantity :: int

text \<open>\<open>item.color || ""\<close> on a field that may be missing.\<close>

definition or_empty :: "string option \<Rightarrow> string" where
  "or_empty x = (case x of None \<Rightarrow> [] | Some s \<Rightarrow> if s = [] then [] else s)"

text \<open>The callback of \<open>cartData?.cart?.map\<close> (Index.tsx, lines 101-115).\<close>

definition convert_item :: "cart_line \<Rightarrow> cart_item" where
  "convert_item item =
     \<lparr>product =
        \<lparr>cp_id = li_product_id item,
         cp_name = li_name item,
         cp_price = li_price item,
         cp_description = [],
         cp_color = or_empty (li_color item),
         cp_size = or_empty (li_size item),
         cp_product_code = [],
         cp_category = [],
         cp_image_url = or_empty (li_image_url item),
         cp_pricebook_entry_id = li_pricebook_entry_id item\<rparr>,
      quantity = li_quantity item\<rparr>"

definition cart_of :: "cart_response option \<Rightarrow> cart_item list" where
  "cart_of cartData =
     (case cartData of
        None \<Rightarrow> []
      | Some d \<Rightarrow> (case resp_cart d of None \<Rightarrow> [] | Some ls \<Rightarrow> map convert_item ls))"

text \<open>The lines a cart response carries.\<close>

definition lines_of :: "cart_response \<Rightarrow> cart_line list" where
  "lines_of d = (case resp_cart d of None \<Rightarrow> [] | Some ls \<Rightarrow> ls)"

text \<open>Cart.tsx, lines 29-34.\<close>

definition subtotal :: "cart_item list \<Rightarrow> real" where
  "subtotal its = foldl (\<lambda>sum item. sum + cp_price (product item) * of_int (quantity item)) 0 its"

definition tax :: "cart_item list \<Rightarrow> real" where
  "tax its = subtotal its * 0.1"

definition total :: "cart_item list \<Rightarrow> real" where
  "total its = subtotal its + tax its"

text \<open>
  The two quantity buttons of a cart row (Cart.tsx, lines 118-143): the arguments
  passed to \<open>onUpdateQuantity\<close>.
\<close>

definition minus_click :: "cart_item \<Rightarrow> string \<times> int" where
  "minus_click item = (cp_id (product item), max 1 (quantity item - 1))"

definition plus_click :: "cart_item \<Rightarrow> string \<times> int" where
  "plus_click item = (cp_id (product item), quantity item + 1)"


section \<open>The quantity control of the product modal (components/ProductDetailModal.tsx)\<close>

text \<open>
  \<open>parseInt(e.target.value) || 1\<close> then \<open>Math.max(1, ...)\<close>: the argument is the value
  of \<open>parseInt\<close>, \<open>None\<close> for \<open>NaN\<close>; \<open>NaN\<close> and \<open>0\<close> are falsy.
\<close>

definition typed_quantity :: "int option \<Rightarrow> int" where
  "typed_quantity v = max 1 (case v of None \<Rightarrow> 1 | Some n \<Rightarrow> if n = 0 then 1 else n)"

section \<open>The page as a state machine (pages/Index.tsx)\<close>

text \<open>
  The component state (\<open>useState\<close>), the query cache entry of each cart key, the toasts
  shown, the browser's table of live interval timers with the values their callbacks
  captured (\<open>sessionId\<close>, \<open>isAdmin\<close>), and the log of requests sent.
  \<open>modalQuantity\<close> is the \<open>quantity\<close> state of ProductDetailModal; \<open>interval\<close> is the
  timer id held by the cleanup function of the current effect.
\<close>

record toast =
  title :: string
  description :: "string option"
  destructive :: bool

record index_state =
  mounted :: bool
  isAdmin :: bool
  showAdminLogin :: bool
  adminEmail :: string
  isCartOpen :: bool
  sessionId :: string
  checkoutDialogOpen :: bool
  selectedProduct :: "customer_product option"
  modalQuantity :: int
  productsData :: "customer_product list option"
  cartCache :: "string \<Rightarrow> cart_response option"
  toasts :: "toast list"
  timers :: "(nat \<times> string \<times> bool) list"
  nextTimer :: nat
  interval :: "nat option"
  sent :: "request list"

definition send :: "request \<Rightarrow> index_state \<Rightarrow> index_state" where
  "send r st = st\<lparr>sent := sent st @ [r]\<rparr>"

definition show_toast :: "toast \<Rightarrow> index_state \<Rightarrow> index_state" where
  "show_toast t st = st\<lparr>toasts := toasts st @ [t]\<rparr>"

definition error_toast :: "string \<Rightarrow> toast" where
  "error_toast m = \<lparr>title = ''Error'', description = Some m, destructive = True\<rparr>"

text \<open>\<open>const cart = cartData?.cart?.map(...) || []\<close>, with \<open>cartData\<close> the cache entry of
  the key \<open>["cart", sessionId]\<close>.\<close>

definition cart :: "index_state \<Rightarrow> cart_item list" where
  "cart st = cart_of (cartCache st (sessionId st))"

text \<open>\<open>enabled: !!sessionId && !isAdmin\<close> (line 96).\<close>

definition enabled :: "index_state \<Rightarrow> bool" where
  "enabled st = (sessionId st \<noteq> [] \<and> \<not> isAdmin st)"

text \<open>
  The query library, as far as the page relies on it: a query is refetched, on its
  interval or on invalidation, only while a mounted component observes its key with
  \<open>enabled\<close> true; a query that becomes enabled, or whose key changes while enabled, is
  fetched.
\<close>

definition invalidateQueries :: "string \<Rightarrow> index_state \<Rightarrow> index_state" where
  "invalidateQueries k st =
     (if mounted st \<and> sessionId st = k \<and> enabled st then send (GetCart k) st else st)"

text \<open>The effect of lines 57-77: \<open>initSession()\<close>, \<open>setInterval\<close>, and its cleanup.\<close>

definition setInterval_poll :: "index_state \<Rightarrow> index_state" where
  "setInterval_poll st =
     st\<lparr>timers := timers st @ [(nextTimer st, sessionId st, isAdmin st)],
        interval := Some (nextTimer st),
        nextTimer := Suc (nextTimer st)\<rparr>"

definition clearInterval :: "nat \<Rightarrow> index_state \<Rightarrow> index_state" where
  "clearInterval i st = st\<lparr>timers := filter (\<lambda>t. fst t \<noteq> i) (timers st)\<rparr>"

definition effect_cleanup :: "index_state \<Rightarrow> index_state" where
  "effect_cleanup st =
     (case interval st of None \<Rightarrow> st | Some i \<Rightarrow> (clearInterval i st)\<lparr>interval := None\<rparr>)"

definition effect_run :: "index_state \<Rightarrow> index_state" where
  "effect_run st = setInterval_poll (send GetSession st)"

text \<open>
  A render after state setters took \<open>old\<close> to \<open>new\<close>: the effect is cleaned up and run
  again when one of its dependencies \<open>sessionId\<close>, \<open>isAdmin\<close> changed (\<open>queryClient\<close>
  never does), and the cart query is fetched when it has become enabled or its key has
  changed. A state change and the effects it triggers are one step.
\<close>

definition rerender :: "index_state \<Rightarrow> index_state \<Rightarrow> index_state" where
  "rerender old new =
     (let new1 = (if sessionId new = sessionId old \<and> isAdmin new = isAdmin old then new
                  else effect_run (effect_cleanup new))
      in if enabled new1
         then (if enabled old \<and> sessionId new1 = sessionId old then new1
               else send (GetCart (sessionId new1)) new1)
         else new1)"

text \<open>The state at mount: the initial \<open>useState\<close> values, then the effect.\<close>

definition init_state :: index_state where
  "init_state =
     \<lparr>mounted = True, isAdmin = False, showAdminLogin = False, adminEmail = [],
      isCartOpen = False, sessionId = [], checkoutDialogOpen = False,
      selectedProduct = None, modalQuantity = 1, productsData = None,
      cartCache = (\<lambda>k. None), toasts = [], timers = [], nextTimer = 0,
      interval = None, sent = []\<rparr>"

definition mount :: index_state where
  "mount = effect_run init_state"

text \<open>\<open>addToCartMutation.mutate\<close> (lines 133-163, 258-260): a product that is not among
  \<open>productsData?.items\<close> makes \<open>mutationFn\<close> throw, which \<open>onError\<close> turns into a toast.\<close>

definition handleAddToCart :: "string \<Rightarrow> int \<Rightarrow> index_state \<Rightarrow> index_state" where
  "handleAddToCart productId q st =
     (case (case productsData st of None \<Rightarrow> None
            | Some its \<Rightarrow> find (\<lambda>p. cp_id p = productId) its) of
        None \<Rightarrow> show_toast (error_toast ''Product not found'') st
      | Some p \<Rightarrow>
          send (PostAdd (sessionId st)
                  \<lparr>add_product_id = cp_id p,
                   add_quantity = q,
                   add_pricebook_entry_id = cp_pricebook_entry_id p,
                   add_price = cp_price p,
                   add_name = cp_name p,
                   add_color = Some (cp_color p),
                   add_size = Some (cp_size p),
                   add_image_url = Some (cp_image_url p)\<rparr>) st)"

definition handleUpdateQuantity :: "string \<times> int \<Rightarrow> index_state \<Rightarrow> index_state" where
  "handleUpdateQuantity a st = send (PutItem (sessionId st) (fst a) (snd a)) st"

definition handleRemoveFromCart :: "string \<Rightarrow> index_state \<Rightarrow> index_state" where
  "handleRemoveFromCart productId st = send (DeleteItem (sessionId st) productId) st"

definition order_item_of :: "cart_item \<Rightarrow> order_item" where
  "order_item_of item =
     \<lparr>oi_product_id = cp_id (product item),
      oi_quantity = quantity item,
      oi_unit_price = cp_price (product item),
      oi_pricebook_entry_id = cp_pricebook_entry_id (product item)\<rparr>"

definition handleCheckoutSubmit :: "customer \<Rightarrow> index_state \<Rightarrow> index_state" where
  "handleCheckoutSubmit d st =
     send (createOrder_request
             \<lparr>customer = d, items = map order_item_of (cart st),
              checkout_source = Some ''Web''\<rparr>
             (sessionId st)) st"

text \<open>
  What can happen to the page. A \<open>...Settled\<close> event is the completion of a request with
  the given outcome; \<open>TimerFires i\<close> is the browser running the callback of interval
  \<open>i\<close>; \<open>RefetchIntervalFires\<close> is the \<open>refetchInterval\<close> of the cart query elapsing;
  \<open>CartMinus n\<close>, \<open>CartPlus n\<close>, \<open>CartRemove n\<close> are clicks in row \<open>n\<close> of the cart panel;
  the \<open>Modal...\<close> events are the controls of ProductDetailModal and \<open>ModalChange v\<close>
  carries the value of \<open>parseInt\<close> on the typed text.
\<close>

datatype event =
    SessionSettled "session_response fetch_result"
  | TimerFires nat
  | RefetchIntervalFires
  | CartSettled string "cart_response fetch_result"
  | ProductsLoaded "customer_product list"
  | CardAdd string
  | ViewDetails customer_product
  | ModalMinus
  | ModalPlus
  | ModalChange "int option"
  | ModalAdd
  | ModalClose
  | CartMinus nat
  | CartPlus nat
  | CartRemove nat
  | AddSettled "string option fetch_result"
  | UpdateSettled "unit fetch_result"
  | RemoveSettled "unit fetch_result"
  | OpenCart
  | CloseCart
  | Checkout
  | CheckoutClose
  | CheckoutSubmit customer
  | OrderSettled "unit fetch_result"
  | ModeToggle
  | AdminLogin string string
  | AdminLoginClose
  | Unmount

fun handle :: "event \<Rightarrow> index_state \<Rightarrow> index_state" where
  "handle (SessionSettled r) st =
     (case getOrCreateSession r of
        Inl e \<Rightarrow> st
      | Inr s \<Rightarrow> rerender st (st\<lparr>sessionId := session_id s\<rparr>))"
| "handle (TimerFires i) st =
     (case map_of (timers st) i of
        None \<Rightarrow> st
      | Some c \<Rightarrow> if fst c \<noteq> [] \<and> \<not> snd c then invalidateQueries (fst c) st else st)"
| "handle RefetchIntervalFires st =
     (if enabled st then send (GetCart (sessionId st)) st else st)"
| "handle (CartSettled k r) st =
     (case getCart r of
        Inl e \<Rightarrow> st
      | Inr d \<Rightarrow> st\<lparr>cartCache := (cartCache st)(k := Some d)\<rparr>)"
| "handle (ProductsLoaded its) st = st\<lparr>productsData := Some its\<rparr>"
| "handle (CardAdd productId) st = handleAddToCart productId 1 st"
| "handle (ViewDetails p) st =
     st\<lparr>selectedProduct := Some p,
        modalQuantity := (case selectedProduct st of None \<Rightarrow> 1 | Some _ \<Rightarrow> modalQuantity st)\<rparr>"
| "handle ModalMinus st = st\<lparr>modalQuantity := max 1 (modalQuantity st - 1)\<rparr>"
| "handle ModalPlus st = st\<lparr>modalQuantity := modalQuantity st + 1\<rparr>"
| "handle (ModalChange v) st = st\<lparr>modalQuantity := typed_quantity v\<rparr>"
| "handle ModalAdd st =
     (case selectedProduct st of
        None \<Rightarrow> st
      | Some p \<Rightarrow> (handleAddToCart (cp_id p) (modalQuantity st) st)\<lparr>selectedProduct := None\<rparr>)"
| "handle ModalClose st = st\<lparr>selectedProduct := None\<rparr>"
| "handle (CartMinus n) st =
     (if n < length (cart st) then handleUpdateQuantity (minus_click (cart st ! n)) st else st)"
| "handle (CartPlus n) st =
     (if n < length (cart st) then handleUpdateQuantity (plus_click (cart st ! n)) st else st)"
| "handle (CartRemove n) st =
     (if n < length (cart st) then handleRemoveFromCart (cp_id (product (cart st ! n))) st
      else st)"
| "handle (AddSettled r) st =
     (case addToCart r of
        Inl m \<Rightarrow> show_toast (error_toast m) st
      | Inr msg \<Rightarrow>
          show_toast \<lparr>title = ''Added to cart'', description = msg, destructive = False\<rparr>
            (invalidateQueries (sessionId st) st))"
| "handle (UpdateSettled r) st =
     (case updateCartItem r of
        Inl m \<Rightarrow> st
      | Inr u \<Rightarrow> invalidateQueries (sessionId st) st)"
| "handle (RemoveSettled r) st =
     (case removeFromCart r of
        Inl m \<Rightarrow> st
      | Inr u \<Rightarrow>
          show_toast \<lparr>title = ''Removed from cart'', description = None, destructive = False\<rparr>
            (invalidateQueries (sessionId st) st))"
| "handle OpenCart st = st\<lparr>isCartOpen := True\<rparr>"
| "handle CloseCart st = st\<lparr>isCartOpen := False\<rparr>"
| "handle Checkout st = st\<lparr>checkoutDialogOpen := True\<rparr>"
| "handle CheckoutClose st = st\<lparr>checkoutDialogOpen := False\<rparr>"
| "handle (CheckoutSubmit d) st = handleCheckoutSubmit d st"
| "handle (OrderSettled r) st =
     (case createOrder r of
        Inl m \<Rightarrow> show_toast (error_toast m) st
      | Inr u \<Rightarrow>
          (let st1 = show_toast
                       \<lparr>title = ''Order placed!'',
                        description = Some ''Your order has been placed successfully'',
                        destructive = False\<rparr>
                       (invalidateQueries (sessionId st) st)
           in if mounted st then st1\<lparr>checkoutDialogOpen := False, isCartOpen := False\<rparr>
              else st1))"
| "handle ModeToggle st =
     (if isAdmin st
      then rerender st
             (show_toast
                \<lparr>title = ''Switched to Customer Mode'',
                 description = Some ''You are now viewing the customer storefront'',
                 destructive = False\<rparr>
                (st\<lparr>isAdmin := False, adminEmail := []\<rparr>))
      else st\<lparr>showAdminLogin := True\<rparr>)"
| "handle (AdminLogin email password) st =
     rerender st
       (show_toast
          \<lparr>title = ''Welcome to Admin Panel'',
           description = Some (''Logged in as '' @ email),
           destructive = False\<rparr>
          (st\<lparr>adminEmail := email, isAdmin := True, showAdminLogin := False\<rparr>))"
| "handle AdminLoginClose st = st\<lparr>showAdminLogin := False\<rparr>"
| "handle Unmount st = (effect_cleanup st)\<lparr>mounted := False\<rparr>"

text \<open>
  After the page is unmounted there is no component left to click on or to set state
  on; what can still happen is a timer that was left behind firing, and a request that
  was in flight completing.
\<close>

fun background :: "event \<Rightarrow> bool" where
  "background (TimerFires i) = True"
| "background (CartSettled k r) = True"
| "background (AddSettled r) = True"
| "background (UpdateSettled r) = True"
| "background (RemoveSettled r) = True"
| "background (OrderSettled r) = True"
| "background ev = False"

definition step :: "index_state \<Rightarrow> event \<Rightarrow> index_state" where
  "step st ev = (if mounted st \<or> background ev then handle ev st else st)"

definition run :: "index_state \<Rightarrow> event list \<Rightarrow> index_state" where
  "run st evs = foldl step st evs"

text \<open>The cart reads among the requests sent, and the clear requests.\<close>

fun is_cart_read :: "request \<Rightarrow> bool" where
  "is_cart_read (GetCart k) = True"
| "is_cart_read r = False"

definition cart_reads :: "index_state \<Rightarrow> request list" where
  "cart_reads st = filter is_cart_read (sent st)"

fun is_clear :: "request \<Rightarrow> bool" where
  "is_clear (DeleteCart k) = True"
| "is_clear r = False"

text \<open>The quantity argument of an add or update request is at least 1.\<close>

fun quantity_ok :: "request \<Rightarrow> bool" where
  "quantity_ok (PostAdd k a) = (1 \<le> add_quantity a)"
| "quantity_ok (PutItem k p q) = (1 \<le> q)"
| "quantity_ok r = True"

text \<open>A cart outcome whose lines, if it carries any, all have a quantity of at least 1.\<close>

fun lines_positive :: "event \<Rightarrow> bool" where
  "lines_positive (CartSettled k (Ok (Inr d))) = list_all (\<lambda>l. 1 \<le> li_quantity l) (lines_of d)"
| "lines_positive ev = True"

section \<open>The canonical store\<close>

text \<open>
  The store that holds the canonical carts runs on the server, and its code is not among
  the sources: the client reaches it only through the requests above. The definitions of
  this section follow sections 4.2, 4.3 and 7 of the specification. A cart is the list of
  its lines in insertion order, keyed by session id.
\<close>

datatype error = SessionNotFound | ProductNotFound | ValidationError

type_synonym cart_store = "string \<Rightarrow> cart_line list option"

text \<open>Modelled from the spec: the line that \<open>add\<close> creates for a product not yet in the
  cart carries the price and display snapshot of the request (server code, missing).\<close>

definition new_line :: "cart_item_add \<Rightarrow> cart_line" where
  "new_line a =
     \<lparr>li_product_id = add_product_id a,
      li_name = add_name a,
      li_price = add_price a,
      li_pricebook_entry_id = add_pricebook_entry_id a,
      li_image_url = add_image_url a,
      li_color = add_color a,
      li_size = add_size a,
      li_quantity = add_quantity a\<rparr>"

text \<open>Modelled from the spec: \<open>add\<close> of CartStore on the lines of one cart (server code,
  missing): "if product_id already has a line, increment its quantity by quantity (never
  overwrite) and leave its price snapshot as originally captured; otherwise create a new
  line with the given snapshot".\<close>

fun add_line :: "cart_item_add \<Rightarrow> cart_line list \<Rightarrow> cart_line list" where
  "add_line a [] = [new_line a]"
| "add_line a (l # ls) =
     (if li_product_id l = add_product_id a
      then l\<lparr>li_quantity := li_quantity l + add_quantity a\<rparr> # ls
      else l # add_line a ls)"

text \<open>Modelled from the spec: \<open>add\<close> of CartStore (server code, missing): "Fails with
  SessionNotFound if the session does not exist".\<close>

definition store_add :: "cart_store \<Rightarrow> string \<Rightarrow> cart_item_add \<Rightarrow> error + cart_store" where
  "store_add store sid a =
     (case store sid of
        None \<Rightarrow> Inl SessionNotFound
      | Some ls \<Rightarrow> Inr (store(sid := Some (add_line a ls))))"

text \<open>Modelled from the spec: a sequence of \<open>add\<close> calls against one session, applied in
  arrival order (server code, missing); the first failure ends it.\<close>

fun store_adds :: "cart_store \<Rightarrow> string \<Rightarrow> cart_item_add list \<Rightarrow> error + cart_store" where
  "store_adds store sid [] = Inr store"
| "store_adds store sid (a # as) =
     (case store_add store sid a of
        Inl e \<Rightarrow> Inl e
      | Inr store' \<Rightarrow> store_adds store' sid as)"

text \<open>Modelled from the spec: the line of a product in a cart, \<open>product_id\<close> being the
  key of a line (server code, missing).\<close>

definition find_line :: "string \<Rightarrow> cart_line list \<Rightarrow> cart_line option" where
  "find_line p ls = find (\<lambda>l. li_product_id l = p) ls"

text \<open>Modelled from the spec: \<open>setQuantity\<close> of CartStore (server code, missing): "Fails
  with ProductNotFound if no such line exists"; a session that does not exist is
  SessionNotFound.\<close>

definition store_setQuantity :: "cart_store \<Rightarrow> string \<Rightarrow> string \<Rightarrow> int \<Rightarrow> error + cart_store" where
  "store_setQuantity store sid p q =
     (case store sid of
        None \<Rightarrow> Inl SessionNotFound
      | Some ls \<Rightarrow>
          (case find_line p ls of
             None \<Rightarrow> Inl ProductNotFound
           | Some l0 \<Rightarrow>
               Inr (store(sid := Some (map (\<lambda>l. if li_product_id l = p
                                                then l\<lparr>li_quantity := q\<rparr> else l) ls)))))"

text \<open>Modelled from the spec: the quantity update at the MutationGateway (server code,
  missing): "quantity must be at least 1; setting a lower/invalid value is rejected with
  a ValidationError", "rejected before reaching CartStore".\<close>

definition gateway_setQuantity :: "cart_store \<Rightarrow> string \<Rightarrow> string \<Rightarrow> int \<Rightarrow> error + cart_store" where
  "gateway_setQuantity store sid p q =
     (if q < 1 then Inl ValidationError else store_setQuantity store sid p q)"

text \<open>Modelled from the spec: the store after an operation (server code, missing): a
  rejected operation leaves it as it was.\<close>

definition store_after :: "cart_store \<Rightarrow> error + cart_store \<Rightarrow> cart_store" where
  "store_after store r = (case r of Inl e \<Rightarrow> store | Inr store' \<Rightarrow> store')"

section \<open>Runs, invariants and examples\<close>

text \<open>The admin view is active in every state of a run.\<close>

fun admin_throughout :: "index_state \<Rightarrow> event list \<Rightarrow> bool" where
  "admin_throughout st [] = isAdmin st"
| "admin_throughout st (ev # evs) = (isAdmin st \<and> admin_throughout (step st ev) evs)"

text \<open>
  The timer table holds exactly the interval of the current effect, with the current
  \<open>sessionId\<close> and \<open>isAdmin\<close> captured, while the page is mounted, and nothing after.
\<close>

definition timers_ok :: "index_state \<Rightarrow> bool" where
  "timers_ok st =
     (if mounted st
      then (case interval st of None \<Rightarrow> False
            | Some i \<Rightarrow> timers st = [(i, sessionId st, isAdmin st)])
      else timers st = [])"

text \<open>Every cached cart has only lines with a quantity of at least 1.\<close>

definition cache_positive :: "index_state \<Rightarrow> bool" where
  "cache_positive st =
     (\<forall>k d. cartCache st k = Some d \<longrightarrow> list_all (\<lambda>l. 1 \<le> li_quantity l) (lines_of d))"

definition quantities_ok :: "index_state \<Rightarrow> bool" where
  "quantities_ok st =
     (list_all quantity_ok (sent st) \<and> 1 \<le> modalQuantity st \<and> cache_positive st)"

text \<open>
  A session \<open>s1\<close> whose cart holds two of product \<open>p1\<close>; the same cart after a second
  product was added through another channel; the page after it has fetched the first
  cart, and after an administrator has then logged in.
\<close>

definition example_line :: cart_line where
  "example_line =
     \<lparr>li_product_id = ''p1'', li_name = ''Watch'', li_price = 10,
      li_pricebook_entry_id = ''e1'', li_image_url = None, li_color = Some ''Black'',
      li_size = None, li_quantity = 2\<rparr>"

definition example_line2 :: cart_line where
  "example_line2 =
     \<lparr>li_product_id = ''p2'', li_name = ''Strap'', li_price = 5,
      li_pricebook_entry_id = ''e2'', li_image_url = None, li_color = None,
      li_size = Some ''M'', li_quantity = 1\<rparr>"

definition example_cart :: cart_response where
  "example_cart = \<lparr>resp_cart = Some [example_line], resp_total = 20, resp_item_count = 2\<rparr>"

definition example_cart2 :: cart_response where
  "example_cart2 =
     \<lparr>resp_cart = Some [example_line, example_line2], resp_total = 25, resp_item_count = 3\<rparr>"

definition example_session :: session_response where
  "example_session = \<lparr>session_id = ''s1'', sess_cart = [], sess_total = 0\<rparr>"

definition example_state :: index_state where
  "example_state =
     run mount [SessionSettled (Ok (Inr example_session)),
                CartSettled ''s1'' (Ok (Inr example_cart))]"

definition example_admin_state :: index_state where
  "example_admin_state = step example_state (AdminLogin ''admin@example.com'' ''secret'')"

definition example_events :: "event list" where
  "example_events =
     [SessionSettled (Ok (Inr example_session)),
      CartSettled ''s1'' (Ok (Inr example_cart)),
      CartPlus 0, CartMinus 0, ModalChange (Some 0), ModalMinus]"

definition example_add :: "int \<Rightarrow> real \<Rightarrow> cart_item_add" where
  "example_add q pr =
     \<lparr>add_product_id = ''p1'', add_quantity = q, add_pricebook_entry_id = ''e1'',
      add_price = pr, add_name = ''Watch'', add_color = Some ''Black'', add_size = None,
      add_image_url = None\<rparr>"

definition example_store :: cart_store where
  "example_store = (\<lambda>k. None)(''s1'' := Some [example_line2])"

text \<open>The page with an update sent from the row of \<open>p1\<close> and not yet settled.\<close>

definition example_pending_events :: "event list" where
  "example_pending_events =
     [SessionSettled (Ok (Inr example_session)),
      CartSettled ''s1'' (Ok (Inr example_cart)),
      CartPlus 0]"

text \<open>A cart response whose only line has the quantity -5, and the events of a page
  that fetches it and has its plus button clicked.\<close>

definition example_negative_cart :: cart_response where
  "example_negative_cart =
     \<lparr>resp_cart = Some [example_line\<lparr>li_quantity := - 5\<rparr>], resp_total = - 50,
      resp_item_count = - 5\<rparr>"

definition example_negative_events :: "event list" where
  "example_negative_events =
     [SessionSettled (Ok (Inr example_session)),
      CartSettled ''s1'' (Ok (Inr example_negative_cart)),
      CartPlus 0]"

text \<open>The remove requests among the requests sent, and the click that sends one.\<close>

fun is_remove :: "request \<Rightarrow> bool" where
  "is_remove (DeleteItem k p) = True"
| "is_remove r = False"

fun remove_click :: "event \<Rightarrow> bool" where
  "remove_click (CartRemove n) = True"
| "remove_click ev = False"

text \<open>Modelled from the spec: the product ids that have a line in the cart of a
  session, \<open>product_id\<close> being the key of a line (server code, missing).\<close>

definition line_ids :: "cart_store \<Rightarrow> string \<Rightarrow> string set" where
  "line_ids store k = (case store k of None \<Rightarrow> {} | Some ls \<Rightarrow> set (map li_product_id ls))"

section \<open>Evaluation of the examples\<close>

lemmas api_defs = getOrCreateSession_def getCart_def addToCart_def updateCartItem_def
  removeFromCart_def createOrder_def throw_detail_def detail_or_def

lemmas page_defs = send_def show_toast_def error_toast_def enabled_def invalidateQueries_def
  setInterval_poll_def clearInterval_def effect_cleanup_def effect_run_def rerender_def
  handleAddToCart_def handleUpdateQuantity_def handleRemoveFromCart_def
  handleCheckoutSubmit_def createOrder_request_def

lemma example_state_eq:
  "example_state =
     \<lparr>mounted = True, isAdmin = False, showAdminLogin = False, adminEmail = [],
      isCartOpen = False, sessionId = ''s1'', checkoutDialogOpen = False,
      selectedProduct = None, modalQuantity = 1, productsData = None,
      cartCache = (\<lambda>k. None)(''s1'' := Some example_cart), toasts = [],
      timers = [(1, ''s1'', False)], nextTimer = 2,
      interval = Some 1, sent = [GetSession, GetSession, GetCart ''s1'']\<rparr>"
  by (simp add: example_state_def run_def step_def mount_def init_state_def api_defs page_defs
      example_session_def Let_def)

lemma example_admin_state_eq:
  "example_admin_state =
     \<lparr>mounted = True, isAdmin = True, showAdminLogin = False,
      adminEmail = ''admin@example.com'',
      isCartOpen = False, sessionId = ''s1'', checkoutDialogOpen = False,
      selectedProduct = None, modalQuantity = 1, productsData = None,
      cartCache = (\<lambda>k. None)(''s1'' := Some example_cart),
      toasts = [\<lparr>title = ''Welcome to Admin Panel'',
                 description = Some ''Logged in as admin@example.com'',
                 destructive = False\<rparr>],
      timers = [(2, ''s1'', True)], nextTimer = 3,
      interval = Some 2, sent = [GetSession, GetSession, GetCart ''s1'', GetSession]\<rparr>"
  by (simp add: example_admin_state_def step_def example_state_eq page_defs Let_def)

section \<open>The live interval\<close>

lemma timers_ok_mount: "timers_ok mount"
  by (simp add: timers_ok_def mount_def init_state_def page_defs)

lemma timers_ok_rerender:
  assumes "timers_ok old" and "mounted old" and "mounted new"
    and "timers new = timers old" and "interval new = interval old"
  shows "timers_ok (rerender old new)"
  using assms
  by (auto simp: timers_ok_def page_defs Let_def split: option.splits)

lemma timers_ok_step: "timers_ok st \<Longrightarrow> timers_ok (step st ev)"
proof (cases ev)
  case (SessionSettled r)
  assume "timers_ok st"
  then show ?thesis using SessionSettled
    by (auto simp: step_def split: sum.splits intro!: timers_ok_rerender)
next
  case ModeToggle
  assume ok: "timers_ok st"
  show ?thesis
  proof (cases "mounted st \<and> isAdmin st")
    case True
    with ok have "timers_ok (rerender st
             (show_toast
                \<lparr>title = ''Switched to Customer Mode'',
                 description = Some ''You are now viewing the customer storefront'',
                 destructive = False\<rparr>
                (st\<lparr>isAdmin := False, adminEmail := []\<rparr>)))"
      by (intro timers_ok_rerender) (simp_all add: show_toast_def)
    with True show ?thesis using ModeToggle by (simp add: step_def)
  next
    case False
    with ok show ?thesis using ModeToggle
      by (auto simp: step_def timers_ok_def split: option.splits)
  qed
next
  case (AdminLogin email password)
  assume ok: "timers_ok st"
  show ?thesis
  proof (cases "mounted st")
    case True
    with ok have "timers_ok (rerender st
       (show_toast
          \<lparr>title = ''Welcome to Admin Panel'',
           description = Some (''Logged in as '' @ email),
           destructive = False\<rparr>
          (st\<lparr>adminEmail := email, isAdmin := True, showAdminLogin := False\<rparr>)))"
      by (intro timers_ok_rerender) (simp_all add: show_toast_def)
    with True show ?thesis using AdminLogin by (simp add: step_def)
  next
    case False
    with ok show ?thesis using AdminLogin by (simp add: step_def)
  qed
qed (auto simp: step_def timers_ok_def api_defs send_def show_toast_def error_toast_def
       invalidateQueries_def handleAddToCart_def handleUpdateQuantity_def
       handleRemoveFromCart_def handleCheckoutSubmit_def effect_cleanup_def clearInterval_def
       Let_def
     split: option.splits sum.splits fetch_result.splits if_splits)

lemma timers_ok_run: "timers_ok st \<Longrightarrow> timers_ok (run st evs)"
  unfolding run_def by (induction evs arbitrary: st) (simp_all add: timers_ok_step)

section \<open>The view follows the canonical cart\<close>


lemma foldl_add_real: "foldl (\<lambda>s x. s + f x) (a::real) xs = a + sum_list (map f xs)"
  by (induction xs arbitrary: a) simp_all

lemma subtotal_sum:
  "subtotal its = (\<Sum>item\<leftarrow>its. cp_price (product item) * of_int (quantity item))"
  by (simp add: subtotal_def foldl_add_real)

text \<open>
  Claim C1. Both pollers of the page read the canonical cart: when the refetch interval
  of the cart query elapses on a mounted page whose query is enabled, the page sends the
  read of the cart of its session, and so it does when the interval timer of the effect
  fires on a page reached from mount by any events. After such a tick, whichever of the
  two it was, and the arrival of the cart that the read returns, the cart view is
  exactly the image of the lines of that response, whatever the page held before
  (including any update that was sent and has not settled): each view line has the
  product id, name, price, price book entry and quantity of the response line, the
  colour, size and image of the response line or the empty string where the response
  has none, and empty description, product code and category.
\<close>

theorem poll_tick_replaces_view:
  "(mounted st \<and> enabled st \<longrightarrow>
      sent (step st RefetchIntervalFires) = sent st @ [GetCart (sessionId st)])
   \<and> (mounted (run mount evs) \<and> enabled (run mount evs) \<and> interval (run mount evs) = Some i \<longrightarrow>
        sent (step (run mount evs) (TimerFires i))
          = sent (run mount evs) @ [GetCart (sessionId (run mount evs))])
   \<and> cart (step (step st RefetchIntervalFires) (CartSettled (sessionId st) (Ok (Inr d))))
       = map convert_item (lines_of d)
   \<and> cart (step (step st (TimerFires j)) (CartSettled (sessionId st) (Ok (Inr d))))
       = map convert_item (lines_of d)
   \<and> (\<forall>l. quantity (convert_item l) = li_quantity l
        \<and> product (convert_item l) =
            \<lparr>cp_id = li_product_id l, cp_name = li_name l, cp_price = li_price l,
             cp_description = [],
             cp_color = (case li_color l of None \<Rightarrow> [] | Some s \<Rightarrow> s),
             cp_size = (case li_size l of None \<Rightarrow> [] | Some s \<Rightarrow> s),
             cp_product_code = [], cp_category = [],
             cp_image_url = (case li_image_url l of None \<Rightarrow> [] | Some s \<Rightarrow> s),
             cp_pricebook_entry_id = li_pricebook_entry_id l\<rparr>)"
proof -
  have refetch: "sent (step st RefetchIntervalFires) = sent st @ [GetCart (sessionId st)]"
    if "mounted st" "enabled st"
    using that by (simp add: step_def send_def)
  have timer: "sent (step (run mount evs) (TimerFires i))
                 = sent (run mount evs) @ [GetCart (sessionId (run mount evs))]"
    if m: "mounted (run mount evs)" and e: "enabled (run mount evs)"
      and t: "interval (run mount evs) = Some i"
  proof -
    have "timers_ok (run mount evs)"
      using timers_ok_mount by (rule timers_ok_run)
    with m t have "timers (run mount evs)
                     = [(i, sessionId (run mount evs), isAdmin (run mount evs))]"
      by (simp add: timers_ok_def)
    with m e show ?thesis
      by (simp add: step_def invalidateQueries_def send_def enabled_def)
  qed
  have image: "cart_of (Some d) = map convert_item (lines_of d)"
    by (simp add: cart_of_def lines_of_def split: option.splits)
  have "cart (step (step st RefetchIntervalFires) (CartSettled (sessionId st) (Ok (Inr d))))
          = cart_of (Some d)"
    by (simp add: step_def cart_def getCart_def send_def)
  moreover
  have "sessionId (step st (TimerFires j)) = sessionId st"
    by (simp add: step_def invalidateQueries_def send_def split: option.splits)
  then have "cart (step (step st (TimerFires j)) (CartSettled (sessionId st) (Ok (Inr d))))
          = cart_of (Some d)"
    by (simp add: step_def [of "step st (TimerFires j)"] cart_def getCart_def)
  moreover have "or_empty x = (case x of None \<Rightarrow> [] | Some s \<Rightarrow> s)" for x
    by (simp add: or_empty_def split: option.splits)
  ultimately show ?thesis
    using refetch timer by (simp add: image convert_item_def)
qed

text \<open>
  The page shows two of \<open>p1\<close> and has an unsettled update in flight. Each of its two
  pollers sends the read of the cart of \<open>s1\<close>; the store now holds two of \<open>p1\<close> and one
  of \<open>p2\<close>, and after the tick and the response the view is exactly these two lines.
\<close>

theorem poll_tick_replaces_view_witness:
  "mounted (run mount example_pending_events)
   \<and> enabled (run mount example_pending_events)
   \<and> interval (run mount example_pending_events) = Some 1
   \<and> sent (step (run mount example_pending_events) RefetchIntervalFires)
       = [GetSession, GetSession, GetCart ''s1'', PutItem ''s1'' ''p1'' 3, GetCart ''s1'']
   \<and> sent (step (run mount example_pending_events) (TimerFires 1))
       = [GetSession, GetSession, GetCart ''s1'', PutItem ''s1'' ''p1'' 3, GetCart ''s1'']
   \<and> cart (step (step (run mount example_pending_events) RefetchIntervalFires)
              (CartSettled ''s1'' (Ok (Inr example_cart2))))
       = [convert_item example_line, convert_item example_line2]
   \<and> cart (step (step (run mount example_pending_events) (TimerFires 1))
              (CartSettled ''s1'' (Ok (Inr example_cart2))))
       = [convert_item example_line, convert_item example_line2]"
proof -
  have "run mount example_pending_events = step example_state (CartPlus 0)"
    by (simp add: example_pending_events_def example_state_def run_def)
  then have p: "mounted (run mount example_pending_events)"
    "enabled (run mount example_pending_events)"
    "interval (run mount example_pending_events) = Some 1"
    "sessionId (run mount example_pending_events) = ''s1''"
    "sent (run mount example_pending_events)
       = [GetSession, GetSession, GetCart ''s1'', PutItem ''s1'' ''p1'' 3]"
    by (simp_all add: step_def example_state_eq handleUpdateQuantity_def send_def enabled_def
          cart_def cart_of_def example_cart_def plus_click_def convert_item_def
          example_line_def)
  have l: "lines_of example_cart2 = [example_line, example_line2]"
    by (simp add: lines_of_def example_cart2_def)
  from poll_tick_replaces_view [of "run mount example_pending_events" example_pending_events
      1 example_cart2 1] p l
  show ?thesis by simp
qed

text \<open>
  Claim C2, as the code has it. The figure labelled Total is the subtotal plus ten
  percent tax; the subtotal is the sum over the lines of price times quantity. Both are
  functions of the lines passed to the panel, computed at every render.
\<close>

theorem total_is_subtotal_plus_tax:
  "subtotal its = (\<Sum>item\<leftarrow>its. cp_price (product item) * of_int (quantity item))
   \<and> tax its = subtotal its / 10
   \<and> total its = subtotal its + tax its"
  by (simp add: total_def tax_def subtotal_sum)

text \<open>
  Claim C2 as stated fails: for a cart of two watches at 10 the panel shows a total of
  22, not 20.
\<close>

theorem total_is_not_the_sum:
  "total [convert_item example_line]
     \<noteq> li_price example_line * of_int (li_quantity example_line)"
  by (simp add: total_def tax_def subtotal_def convert_item_def example_line_def)


section \<open>Errors of mutations and of polling\<close>

text \<open>
  Claim C3, at a failing input. The API client throws on a failed update or removal,
  but the page has no \<open>onError\<close> for these two mutations: the user clicks plus on the
  row of \<open>p1\<close>, the update is sent, the server answers with an error, and the page is
  left exactly as it was, with no toast; likewise for a removal whose request cannot
  reach the server. A failed add, in contrast, shows an error toast.
\<close>

theorem update_and_remove_errors_dropped:
  "sent (step example_state (CartPlus 0)) = sent example_state @ [PutItem ''s1'' ''p1'' 3]
   \<and> updateCartItem (NotOk (Inr (Some ''Product not in cart''))) = Inl ''Product not in cart''
   \<and> step (step example_state (CartPlus 0))
        (UpdateSettled (NotOk (Inr (Some ''Product not in cart''))))
       = step example_state (CartPlus 0)
   \<and> removeFromCart (Rejected ''Failed to fetch'') = Inl ''Failed to fetch''
   \<and> step example_state (RemoveSettled (Rejected ''Failed to fetch'')) = example_state
   \<and> toasts (step example_state (AddSettled (NotOk (Inr (Some ''Session not found'')))))
       = toasts example_state @ [error_toast ''Session not found'']"
  by (simp add: step_def example_state_eq api_defs handleUpdateQuantity_def send_def
        show_toast_def cart_def cart_of_def example_cart_def plus_click_def convert_item_def
        example_line_def)

text \<open>
  A failed cart read leaves the page as it was: nothing is shown, nothing is sent.
  Whether the query library repeats the read by itself is not decided by the page.
\<close>

lemma poll_failure_silent:
  "getCart r = Inl m \<Longrightarrow> step st (CartSettled k r) = st"
  by (simp add: step_def)

section \<open>The canonical store: add and quantity update\<close>

lemma find_line_add_line:
  "add_product_id a = p \<Longrightarrow>
   find_line p (add_line a ls) =
     (case find_line p ls of
        Some l \<Rightarrow> Some (l\<lparr>li_quantity := li_quantity l + add_quantity a\<rparr>)
      | None \<Rightarrow> Some (new_line a))"
  by (induction ls) (simp_all add: find_line_def new_line_def)

lemma ids_add_line:
  "set (map li_product_id (add_line a ls)) = insert (add_product_id a) (set (map li_product_id ls))"
  by (induction ls) (auto simp: new_line_def)

lemma distinct_add_line:
  "distinct (map li_product_id ls) \<Longrightarrow> distinct (map li_product_id (add_line a ls))"
proof (induction ls)
  case Nil
  show ?case by simp
next
  case (Cons l ls)
  show ?case
  proof (cases "li_product_id l = add_product_id a")
    case True
    with Cons.prems show ?thesis by simp
  next
    case False
    from Cons.prems have "li_product_id l \<notin> set (map li_product_id ls)" by simp
    with False have "li_product_id l \<notin> set (map li_product_id (add_line a ls))"
      unfolding ids_add_line by simp
    moreover from Cons have "distinct (map li_product_id (add_line a ls))" by simp
    ultimately show ?thesis using False by simp
  qed
qed

text \<open>
  Claim C4. A sequence of adds of one product to the cart of an existing session
  succeeds, leaves the other sessions alone and keeps the product ids of the cart
  distinct. If the product had a line, the line is the same but for its quantity, which
  has grown by the sum of the added quantities (its price and display snapshot are
  those it had); if it had none, the line is the one the first add created, with the sum
  of the added quantities.
\<close>

theorem adds_sum_on_one_line:
  assumes "store sid = Some ls"
    and "distinct (map li_product_id ls)"
    and "list_all (\<lambda>a. add_product_id a = p) as"
  shows "\<exists>store' ls'.
           store_adds store sid as = Inr store'
         \<and> store' sid = Some ls'
         \<and> (\<forall>k. k \<noteq> sid \<longrightarrow> store' k = store k)
         \<and> distinct (map li_product_id ls')
         \<and> find_line p ls' =
             (case find_line p ls of
                Some l \<Rightarrow>
                  Some (l\<lparr>li_quantity := li_quantity l + sum_list (map add_quantity as)\<rparr>)
              | None \<Rightarrow>
                  (case as of
                     [] \<Rightarrow> None
                   | a # as' \<Rightarrow>
                       Some ((new_line a)\<lparr>li_quantity := sum_list (map add_quantity as)\<rparr>)))"
  using assms
proof (induction as arbitrary: store ls)
  case Nil
  then show ?case by (simp split: option.splits)
next
  case (Cons a as)
  let ?ls1 = "add_line a ls"
  let ?store1 = "store(sid := Some ?ls1)"
  from Cons.prems have pa: "add_product_id a = p"
    and rest: "list_all (\<lambda>a. add_product_id a = p) as" by simp_all
  have s1: "store_add store sid a = Inr ?store1"
    using Cons.prems(1) by (simp add: store_add_def)
  have "?store1 sid = Some ?ls1" by simp
  moreover have "distinct (map li_product_id ?ls1)"
    using Cons.prems(2) by (rule distinct_add_line)
  ultimately obtain store' ls' where
    r: "store_adds ?store1 sid as = Inr store'" and
    l: "store' sid = Some ls'" and
    o: "\<forall>k. k \<noteq> sid \<longrightarrow> store' k = ?store1 k" and
    d: "distinct (map li_product_id ls')" and
    f: "find_line p ls' =
          (case find_line p ?ls1 of
             Some l \<Rightarrow>
               Some (l\<lparr>li_quantity := li_quantity l + sum_list (map add_quantity as)\<rparr>)
           | None \<Rightarrow>
               (case as of
                  [] \<Rightarrow> None
                | a # as' \<Rightarrow>
                    Some ((new_line a)\<lparr>li_quantity := sum_list (map add_quantity as)\<rparr>)))"
    using Cons.IH [of ?store1 ?ls1] rest by blast
  have q: "li_quantity (new_line a) = add_quantity a" by (simp add: new_line_def)
  have "find_line p ls' =
          (case find_line p ls of
             Some l \<Rightarrow>
               Some (l\<lparr>li_quantity := li_quantity l + sum_list (map add_quantity (a # as))\<rparr>)
           | None \<Rightarrow>
               Some ((new_line a)\<lparr>li_quantity := sum_list (map add_quantity (a # as))\<rparr>))"
    unfolding f find_line_add_line [OF pa]
    by (simp add: q add.assoc split: option.splits)
  with r l o d s1 show ?case by (simp split: option.splits)
qed

theorem adds_sum_on_one_line_witness:
  "example_store ''s1'' = Some [example_line2]
   \<and> distinct (map li_product_id [example_line2])
   \<and> list_all (\<lambda>a. add_product_id a = ''p1'') [example_add 2 10, example_add 3 12]
   \<and> (\<exists>store' ls'.
         store_adds example_store ''s1'' [example_add 2 10, example_add 3 12] = Inr store'
       \<and> store' ''s1'' = Some ls'
       \<and> distinct (map li_product_id ls')
       \<and> find_line ''p1'' ls' = Some ((new_line (example_add 2 10))\<lparr>li_quantity := 5\<rparr>))"
proof -
  have h1: "example_store ''s1'' = Some [example_line2]"
    by (simp add: example_store_def)
  have h2: "distinct (map li_product_id [example_line2])" by simp
  have h3: "list_all (\<lambda>a. add_product_id a = ''p1'') [example_add 2 10, example_add 3 12]"
    by (simp add: example_add_def)
  have n: "find_line ''p1'' [example_line2] = None"
    by (simp add: find_line_def example_line2_def)
  from adds_sum_on_one_line [where store = example_store and sid = "''s1''"
      and ls = "[example_line2]" and p = "''p1''"
      and as = "[example_add 2 10, example_add 3 12]", OF h1 h2 h3]
  obtain store' ls' where
    r: "store_adds example_store ''s1'' [example_add 2 10, example_add 3 12] = Inr store'" and
    l: "store' ''s1'' = Some ls'" and
    d: "distinct (map li_product_id ls')" and
    f: "find_line ''p1'' ls' =
          (case find_line ''p1'' [example_line2] of
             Some l \<Rightarrow>
               Some (l\<lparr>li_quantity := li_quantity l
                         + sum_list (map add_quantity [example_add 2 10, example_add 3 12])\<rparr>)
           | None \<Rightarrow>
               (case [example_add 2 10, example_add 3 12] of
                  [] \<Rightarrow> None
                | a # as' \<Rightarrow>
                    Some ((new_line a)\<lparr>li_quantity :=
                       sum_list (map add_quantity [example_add 2 10, example_add 3 12])\<rparr>)))"
    by blast
  have "add_quantity (example_add q pr) = q" for q pr by (simp add: example_add_def)
  with f n have "find_line ''p1'' ls' = Some ((new_line (example_add 2 10))\<lparr>li_quantity := 5\<rparr>)"
    by simp
  with r l d h1 h2 h3 show ?thesis by blast
qed

text \<open>
  Claim C5. A quantity update below 1 is rejected with \<open>ValidationError\<close> whatever the
  session and the product, and the store is left as it was; the page, on the rejection,
  leaves its cart view as it was.
\<close>

theorem low_quantity_rejected:
  assumes "q < 1"
  shows "gateway_setQuantity store sid p q = Inl ValidationError
       \<and> store_after store (gateway_setQuantity store sid p q) = store
       \<and> cart (step st (UpdateSettled (NotOk d))) = cart st"
proof -
  have "updateCartItem (NotOk d) = Inl (case d of Inl m \<Rightarrow> m
          | Inr x \<Rightarrow> detail_or x ''Failed to update cart'')"
    by (simp add: updateCartItem_def throw_detail_def split: sum.splits)
  then have "step st (UpdateSettled (NotOk d)) = st" by (simp add: step_def)
  with assms show ?thesis by (simp add: gateway_setQuantity_def store_after_def)
qed

theorem low_quantity_rejected_witness:
  "(0::int) < 1
   \<and> gateway_setQuantity example_store ''s1'' ''p2'' 0 = Inl ValidationError
   \<and> store_after example_store (gateway_setQuantity example_store ''s1'' ''p2'' 0) ''s1''
       = Some [example_line2]
   \<and> cart (step example_state (UpdateSettled (NotOk (Inr (Some ''Quantity must be at least 1'')))))
       = [convert_item example_line]"
proof -
  have h: "(0::int) < 1" by simp
  have c: "cart example_state = [convert_item example_line]"
    by (simp add: cart_def cart_of_def example_state_eq example_cart_def)
  from low_quantity_rejected [OF h, of example_store "''s1''" "''p2''" example_state
      "Inr (Some ''Quantity must be at least 1'')"] c
  show ?thesis by (simp add: example_store_def store_after_def)
qed

section \<open>Polling is suspended in the admin view and ends at unmount\<close>

lemma admin_step_no_read:
  assumes "isAdmin st" and "isAdmin (step st ev)"
  shows "cart_reads (step st ev) = cart_reads st"
  using assms
  by (cases ev)
     (auto simp: step_def cart_reads_def api_defs page_defs Let_def
           split: option.splits sum.splits fetch_result.splits if_splits)

lemma admin_run_no_read:
  "admin_throughout st evs \<Longrightarrow> cart_reads (run st evs) = cart_reads st"
proof (induction evs arbitrary: st)
  case Nil
  then show ?case by (simp add: run_def)
next
  case (Cons ev evs)
  from Cons.prems have a: "isAdmin st" and t: "admin_throughout (step st ev) evs"
    by simp_all
  from t have "isAdmin (step st ev)" by (cases evs) simp_all
  with a have "cart_reads (step st ev) = cart_reads st" by (rule admin_step_no_read)
  moreover from t have "cart_reads (run (step st ev) evs) = cart_reads (step st ev)"
    by (rule Cons.IH)
  ultimately show ?case by (simp add: run_def)
qed

lemma unmount_clears_timers:
  "timers_ok st \<Longrightarrow> timers (step st Unmount) = [] \<and> \<not> mounted (step st Unmount)"
  by (auto simp: step_def timers_ok_def effect_cleanup_def clearInterval_def split: option.splits if_splits)

lemma unmounted_step:
  assumes "\<not> mounted st" and "timers st = []"
  shows "\<not> mounted (step st ev) \<and> timers (step st ev) = [] \<and> cart_reads (step st ev) = cart_reads st"
  using assms
  by (cases ev)
     (auto simp: step_def cart_reads_def api_defs send_def show_toast_def error_toast_def
       invalidateQueries_def Let_def
     split: option.splits sum.splits fetch_result.splits if_splits)

lemma unmounted_run:
  "\<not> mounted st \<Longrightarrow> timers st = [] \<Longrightarrow> cart_reads (run st evs) = cart_reads st"
  unfolding run_def
proof (induction evs arbitrary: st)
  case Nil
  show ?case by simp
next
  case (Cons ev evs)
  from unmounted_step [OF Cons.prems, of ev]
  have "\<not> mounted (step st ev)" "timers (step st ev) = []"
    "cart_reads (step st ev) = cart_reads st" by simp_all
  with Cons.IH [of "step st ev"] show ?case by simp
qed

text \<open>
  Claim C7. Over any run during which the admin view stays active no cart read is
  sent, whatever timers fire and whatever requests settle. After the page, reached from
  mount by any events, is unmounted, no interval timer is left, and no cart read is sent
  by anything that happens afterwards.
\<close>

theorem admin_suspends_unmount_cancels:
  "(admin_throughout st evs \<longrightarrow> cart_reads (run st evs) = cart_reads st)
   \<and> timers (step (run mount evs0) Unmount) = []
   \<and> cart_reads (run (step (run mount evs0) Unmount) evs1)
       = cart_reads (step (run mount evs0) Unmount)"
proof -
  have "timers_ok (run mount evs0)"
    using timers_ok_mount by (rule timers_ok_run)
  then have u: "timers (step (run mount evs0) Unmount) = []"
    "\<not> mounted (step (run mount evs0) Unmount)"
    by (simp_all add: unmount_clears_timers)
  from u(2) u(1)
  have "cart_reads (run (step (run mount evs0) Unmount) evs1)
          = cart_reads (step (run mount evs0) Unmount)"
    by (rule unmounted_run)
  with u(1) show ?thesis by (simp add: admin_run_no_read)
qed

theorem admin_suspends_unmount_cancels_witness:
  "admin_throughout example_admin_state
     [TimerFires 2, RefetchIntervalFires, UpdateSettled (Ok (Inr ()))]
   \<and> cart_reads (run example_admin_state
        [TimerFires 2, RefetchIntervalFires, UpdateSettled (Ok (Inr ()))]) = [GetCart ''s1'']"
proof -
  have a: "admin_throughout example_admin_state
     [TimerFires 2, RefetchIntervalFires, UpdateSettled (Ok (Inr ()))]"
    by (simp add: example_admin_state_eq step_def api_defs page_defs)
  have "cart_reads example_admin_state = [GetCart ''s1'']"
    by (simp add: example_admin_state_eq cart_reads_def)
  with a admin_suspends_unmount_cancels [of example_admin_state
      "[TimerFires 2, RefetchIntervalFires, UpdateSettled (Ok (Inr ()))]"]
  show ?thesis by simp
qed

section \<open>Order placement\<close>

lemma no_clear_step:
  "\<not> list_ex is_clear (sent st) \<Longrightarrow> \<not> list_ex is_clear (sent (step st ev))"
  by (cases ev)
     (auto simp: step_def api_defs page_defs Let_def
           split: option.splits sum.splits fetch_result.splits if_splits)

lemma no_clear_run:
  "\<not> list_ex is_clear (sent st) \<Longrightarrow> \<not> list_ex is_clear (sent (run st evs))"
  unfolding run_def by (induction evs arbitrary: st) (simp_all add: no_clear_step)

text \<open>
  Claim C8, as the code has it. The page never sends a clear request. The order
  request carries the session id; when the order has succeeded the page re-reads the
  cart (if polling is enabled), announces the order, and closes the checkout dialog and
  the cart panel.
\<close>

theorem order_success_sends_no_clear:
  "sent (step st (OrderSettled (Ok (Inr u))))
     = sent st @ (if mounted st \<and> enabled st then [GetCart (sessionId st)] else [])
   \<and> toasts (step st (OrderSettled (Ok (Inr u))))
       = toasts st @ [\<lparr>title = ''Order placed!'',
                       description = Some ''Your order has been placed successfully'',
                       destructive = False\<rparr>]
   \<and> (mounted st \<longrightarrow>
        \<not> checkoutDialogOpen (step st (OrderSettled (Ok (Inr u))))
      \<and> \<not> isCartOpen (step st (OrderSettled (Ok (Inr u))))
      \<and> sent (step st (CheckoutSubmit c))
          = sent st @ [PostOrder \<lparr>customer = c, items = map order_item_of (cart st),
                                  checkout_source = Some ''Web''\<rparr>
                         (if sessionId st = [] then None else Some (sessionId st))])
   \<and> \<not> list_ex is_clear (sent (run mount evs))"
proof -
  have "\<not> list_ex is_clear (sent mount)"
    by (simp add: mount_def init_state_def page_defs)
  then have "\<not> list_ex is_clear (sent (run mount evs))" by (rule no_clear_run)
  then show ?thesis
    by (simp add: step_def api_defs page_defs Let_def)
qed

theorem order_success_sends_no_clear_witness:
  "mounted example_state
   \<and> \<not> checkoutDialogOpen (step example_state (OrderSettled (Ok (Inr ()))))
   \<and> \<not> isCartOpen (step example_state (OrderSettled (Ok (Inr ()))))
   \<and> sent (step example_state (OrderSettled (Ok (Inr ()))))
       = [GetSession, GetSession, GetCart ''s1'', GetCart ''s1'']"
proof -
  have "mounted example_state" "enabled example_state" "sessionId example_state = ''s1''"
    "sent example_state = [GetSession, GetSession, GetCart ''s1'']"
    by (simp_all add: example_state_eq enabled_def)
  with order_success_sends_no_clear [of example_state "()"] show ?thesis by simp
qed

text \<open>
  Claim C8 as stated fails: after an order placed from the cart of session \<open>s1\<close> has
  succeeded, no request that clears the cart of \<open>s1\<close> has been sent.
\<close>

theorem order_placed_cart_not_cleared:
  "DeleteCart ''s1'' \<notin> set (sent (run example_state
      [Checkout, CheckoutSubmit (Customer ''Ann'' ''ann@example.com'' None),
       OrderSettled (Ok (Inr ()))]))"
  by (simp add: run_def step_def example_state_eq api_defs page_defs Let_def)

section \<open>Quantities sent are at least 1\<close>

lemma minus_click_ge: "1 \<le> snd (minus_click item)"
  by (simp add: minus_click_def)

lemma typed_quantity_ge: "1 \<le> typed_quantity v"
  by (simp add: typed_quantity_def)

lemma cart_quantity_positive:
  assumes "cache_positive st" and "n < length (cart st)"
  shows "1 \<le> quantity (cart st ! n)"
proof (cases "cartCache st (sessionId st)")
  case None
  with assms(2) show ?thesis by (simp add: cart_def cart_of_def)
next
  case (Some d)
  with assms(1) have pos: "list_all (\<lambda>l. 1 \<le> li_quantity l) (lines_of d)"
    by (simp add: cache_positive_def)
  from Some have c: "cart st = map convert_item (lines_of d)"
    by (simp add: cart_def cart_of_def lines_of_def split: option.splits)
  with assms(2) have n: "n < length (lines_of d)" by simp
  with pos have "1 \<le> li_quantity (lines_of d ! n)" by (simp add: list_all_length)
  with c n show ?thesis by (simp add: convert_item_def)
qed

lemma quantities_ok_mount: "quantities_ok mount"
  by (simp add: quantities_ok_def cache_positive_def mount_def init_state_def page_defs)

lemma quantities_ok_rerender:
  assumes "quantities_ok new"
  shows "quantities_ok (rerender old new)"
  using assms
  by (auto simp: quantities_ok_def cache_positive_def page_defs Let_def split: option.splits)

lemma quantities_ok_add:
  assumes "quantities_ok st" and "1 \<le> q"
  shows "quantities_ok (handleAddToCart p q st)"
  using assms
  by (auto simp: quantities_ok_def cache_positive_def handleAddToCart_def send_def
        show_toast_def split: option.splits)

lemma quantities_ok_update:
  assumes "quantities_ok st" and "1 \<le> snd a"
  shows "quantities_ok (handleUpdateQuantity a st)"
  using assms
  by (auto simp: quantities_ok_def cache_positive_def handleUpdateQuantity_def send_def)

lemma quantities_ok_invalidate:
  "quantities_ok st \<Longrightarrow> quantities_ok (invalidateQueries k st)"
  by (auto simp: quantities_ok_def cache_positive_def invalidateQueries_def send_def)

lemma quantities_ok_toast:
  "quantities_ok st \<Longrightarrow> quantities_ok (show_toast t st)"
  by (auto simp: quantities_ok_def cache_positive_def show_toast_def)

lemma quantities_ok_handle:
  assumes ok: "quantities_ok st" and pos: "lines_positive ev"
  shows "quantities_ok (handle ev st)"
proof (cases ev)
  case (SessionSettled r)
  from ok have "quantities_ok (st\<lparr>sessionId := s\<rparr>)" for s
    by (simp add: quantities_ok_def cache_positive_def)
  then show ?thesis using SessionSettled ok
    by (auto split: sum.splits intro: quantities_ok_rerender)
next
  case (TimerFires i)
  with ok show ?thesis
    by (auto split: option.splits intro: quantities_ok_invalidate)
next
  case RefetchIntervalFires
  with ok show ?thesis by (auto simp: quantities_ok_def cache_positive_def send_def)
next
  case (CartSettled k r)
  show ?thesis
  proof (cases "getCart r")
    case (Inl m)
    with ok CartSettled show ?thesis by simp
  next
    case (Inr d)
    then have r: "r = Ok (Inr d)"
      by (auto simp: getCart_def split: fetch_result.splits)
    with pos CartSettled have "list_all (\<lambda>l. 1 \<le> li_quantity l) (lines_of d)" by simp
    with ok Inr CartSettled show ?thesis
      by (auto simp: quantities_ok_def cache_positive_def)
  qed
next
  case (CardAdd p)
  with ok show ?thesis by (simp add: quantities_ok_add)
next
  case ModalAdd
  from ok have m: "1 \<le> modalQuantity st" by (simp add: quantities_ok_def)
  have "quantities_ok (x\<lparr>selectedProduct := None\<rparr>)" if "quantities_ok x" for x
    using that by (simp add: quantities_ok_def cache_positive_def)
  with ok m ModalAdd show ?thesis
    by (auto split: option.splits intro: quantities_ok_add)
next
  case (CartMinus n)
  with ok show ?thesis by (auto intro: quantities_ok_update minus_click_ge)
next
  case (CartPlus n)
  show ?thesis
  proof (cases "n < length (cart st)")
    case True
    from ok have "cache_positive st" by (simp add: quantities_ok_def)
    from cart_quantity_positive [OF this True]
    have "1 \<le> snd (plus_click (cart st ! n))" by (simp add: plus_click_def)
    with ok True CartPlus show ?thesis by (simp add: quantities_ok_update)
  next
    case False
    with ok CartPlus show ?thesis by simp
  qed
next
  case (CartRemove n)
  with ok show ?thesis
    by (auto simp: quantities_ok_def cache_positive_def handleRemoveFromCart_def send_def)
next
  case (AddSettled r)
  with ok show ?thesis
    by (auto split: sum.splits intro: quantities_ok_toast quantities_ok_invalidate)
next
  case (UpdateSettled r)
  with ok show ?thesis
    by (auto split: sum.splits intro: quantities_ok_invalidate)
next
  case (RemoveSettled r)
  with ok show ?thesis
    by (auto split: sum.splits intro: quantities_ok_toast quantities_ok_invalidate)
next
  case (CheckoutSubmit d)
  with ok show ?thesis
    by (auto simp: quantities_ok_def cache_positive_def handleCheckoutSubmit_def
          createOrder_request_def send_def)
next
  case (OrderSettled r)
  have "quantities_ok (x\<lparr>checkoutDialogOpen := False, isCartOpen := False\<rparr>)"
    if "quantities_ok x" for x
    using that by (simp add: quantities_ok_def cache_positive_def)
  with ok OrderSettled show ?thesis
    by (auto simp: Let_def split: sum.splits
          intro: quantities_ok_toast quantities_ok_invalidate)
next
  case ModeToggle
  from ok have "quantities_ok (st\<lparr>isAdmin := False, adminEmail := []\<rparr>)"
    by (simp add: quantities_ok_def cache_positive_def)
  moreover from ok have "quantities_ok (st\<lparr>showAdminLogin := True\<rparr>)"
    by (simp add: quantities_ok_def cache_positive_def)
  ultimately show ?thesis using ModeToggle
    by (auto intro: quantities_ok_rerender quantities_ok_toast)
next
  case (AdminLogin email password)
  from ok have "quantities_ok (st\<lparr>adminEmail := email, isAdmin := True, showAdminLogin := False\<rparr>)"
    by (simp add: quantities_ok_def cache_positive_def)
  with AdminLogin show ?thesis
    by (auto intro: quantities_ok_rerender quantities_ok_toast)
next
  case Unmount
  with ok show ?thesis
    by (auto simp: quantities_ok_def cache_positive_def effect_cleanup_def clearInterval_def
          split: option.splits)
qed (use ok in \<open>auto simp: quantities_ok_def cache_positive_def typed_quantity_def
       split: option.splits\<close>)

lemma quantities_ok_step:
  "quantities_ok st \<Longrightarrow> lines_positive ev \<Longrightarrow> quantities_ok (step st ev)"
  by (simp add: step_def quantities_ok_handle)

lemma quantities_ok_run:
  "quantities_ok st \<Longrightarrow> list_all lines_positive evs \<Longrightarrow> quantities_ok (run st evs)"
  unfolding run_def by (induction evs arbitrary: st) (simp_all add: quantities_ok_step)

lemma remove_only_by_click:
  "\<not> remove_click ev \<Longrightarrow> filter is_remove (sent (step st ev)) = filter is_remove (sent st)"
  by (cases ev)
     (auto simp: step_def api_defs page_defs Let_def
           split: option.splits sum.splits fetch_result.splits if_splits)

lemma line_ids_setQuantity:
  "line_ids (store_after store (gateway_setQuantity store sid p q)) k = line_ids store k"
proof (cases "gateway_setQuantity store sid p q")
  case (Inl e)
  then show ?thesis by (simp add: store_after_def)
next
  case (Inr store')
  let ?f = "\<lambda>l. if li_product_id l = p then l\<lparr>li_quantity := q\<rparr> else l"
  have m: "map li_product_id (map ?f ls) = map li_product_id ls" for ls
    by (induction ls) simp_all
  from Inr obtain ls where ls: "store sid = Some ls"
    and s': "store' = store(sid := Some (map ?f ls))"
    by (auto simp: gateway_setQuantity_def store_setQuantity_def
          split: if_splits option.splits)
  have "line_ids store' k = line_ids store k"
  proof (cases "k = sid")
    case True
    with ls s' show ?thesis
      unfolding line_ids_def by (simp only: fun_upd_same option.case m)
  next
    case False
    with s' show ?thesis by (simp add: line_ids_def)
  qed
  with Inr show ?thesis by (simp add: store_after_def)
qed

lemma line_ids_add:
  "line_ids store k \<subseteq> line_ids (store_after store (store_add store sid a)) k"
  by (auto simp: line_ids_def store_after_def store_add_def ids_add_line
        simp del: set_map split: option.splits)

text \<open>
  Claim C10, as the code has it. The minus button of a cart row asks for at least 1,
  and so does a typed quantity in the product modal. The plus button of a row asks for
  the displayed quantity plus one, with no clamp. So over any sequence of events from
  mount in which the fetched carts have lines of quantity at least 1 (the invariant of a
  cart line), every add and every update request sent carries a quantity of at least 1,
  and the quantity of the modal is at least 1 throughout. A line leaves the cart only
  through the remove operation: the page never sends a clear request, it sends a remove
  request only on the click of a remove button, and in the store a quantity update
  through the gateway, accepted or rejected, leaves the product ids of every cart as
  they were, and an add takes none away.
\<close>

theorem quantity_arguments_at_least_one:
  "1 \<le> snd (minus_click item)
   \<and> 1 \<le> typed_quantity v
   \<and> snd (plus_click item) = quantity item + 1
   \<and> (list_all lines_positive evs \<longrightarrow>
        list_all quantity_ok (sent (run mount evs)) \<and> 1 \<le> modalQuantity (run mount evs))
   \<and> \<not> list_ex is_clear (sent (run mount evs))
   \<and> (\<not> remove_click ev \<longrightarrow>
        filter is_remove (sent (step st ev)) = filter is_remove (sent st))
   \<and> line_ids (store_after store (gateway_setQuantity store sid p q)) k = line_ids store k
   \<and> line_ids store k \<subseteq> line_ids (store_after store (store_add store sid a)) k"
proof -
  have "quantities_ok (run mount evs)" if "list_all lines_positive evs"
    using quantities_ok_mount that by (rule quantities_ok_run)
  moreover have "\<not> list_ex is_clear (sent mount)"
    by (simp add: mount_def init_state_def page_defs)
  then have "\<not> list_ex is_clear (sent (run mount evs))" by (rule no_clear_run)
  moreover note line_ids_add [of store k sid a]
  ultimately show ?thesis
    by (simp add: minus_click_ge typed_quantity_ge quantities_ok_def plus_click_def
          remove_only_by_click line_ids_setQuantity)
qed

theorem quantity_arguments_at_least_one_witness:
  "list_all lines_positive example_events
   \<and> \<not> remove_click (CartPlus 0)
   \<and> list_all quantity_ok (sent (run mount example_events))
   \<and> 1 \<le> modalQuantity (run mount example_events)
   \<and> filter is_remove (sent (step example_state (CartPlus 0))) = []"
proof -
  have "list_all lines_positive example_events"
    by (simp add: example_events_def lines_of_def example_cart_def example_line_def)
  moreover have "filter is_remove (sent example_state) = []"
    by (simp add: example_state_eq)
  ultimately show ?thesis
    using quantity_arguments_at_least_one [where evs = example_events
        and ev = "CartPlus 0" and st = example_state]
    by simp
qed

text \<open>
  Claim C10 as stated fails: a page that has fetched a cart whose line of \<open>p1\<close> has the
  quantity -5 sends, on a click of the plus button of that row, an update of \<open>p1\<close> to
  the quantity -4.
\<close>

theorem plus_click_below_one:
  "PutItem ''s1'' ''p1'' (- 4) \<in> set (sent (run mount example_negative_events))"
  by (simp add: example_negative_events_def run_def step_def mount_def init_state_def
        api_defs page_defs example_session_def Let_def cart_def cart_of_def
        example_negative_cart_def plus_click_def convert_item_def example_line_def)

end
